theory Spec2Isabelle
  imports Main "HOL-Library.Word" "HOL-Library.Signed_Division"
begin

unbundle bit_operations_syntax

section \<open>Interpreters/DistributedStages/Scheduler.h\<close>

text \<open>
  \<^verbatim>\<open>size_t\<close> is the 64-bit unsigned machine word of the target; \<open>+\<close> and
  \<open>push_bit\<close> (the C++ \<^verbatim>\<open><<\<close>) wrap around.
\<close>

type_synonym size_t = "64 word"

subsection \<open>SegmentTaskInstance\<close>

record SegmentTaskInstance =
  segment_id :: size_t
  parallel_index :: size_t

text \<open>\<^verbatim>\<open>SegmentTaskInstance::operator==\<close>.\<close>

definition SegmentTaskInstance_eq :: "SegmentTaskInstance \<Rightarrow> SegmentTaskInstance \<Rightarrow> bool" where
  "SegmentTaskInstance_eq this rhs =
     (SegmentTaskInstance.segment_id this = SegmentTaskInstance.segment_id rhs \<and>
      SegmentTaskInstance.parallel_index this = SegmentTaskInstance.parallel_index rhs)"

text \<open>\<^verbatim>\<open>SegmentTaskInstance::Hash::operator()\<close>.\<close>

definition Hash :: "SegmentTaskInstance \<Rightarrow> size_t" where
  "Hash key = push_bit 13 (SegmentTaskInstance.segment_id key) + SegmentTaskInstance.parallel_index key"

subsection \<open>Collaborators declared outside this header\<close>

text \<open>
  \<open>NodeType\<close>, \<open>WorkerNode\<close>, \<open>ClusterNodes\<close> (Interpreters/NodeSelector.h),
  \<open>SegmentTask\<close> (ScheduleEvent.h) and the query context are declared in headers that
  are not part of the sources. They are modelled by what this header uses of them:
  the \<open>WorkerNode\<close> constructor called with an address, a node type and an id; the
  \<open>all_workers\<close> vector of \<open>ClusterNodes\<close> (other members stay in the record's
  extension); the \<open>segment_id\<close> and \<open>has_table_scan_or_value\<close> members of a task;
  the two getters the constructor calls on the context. A name that ends in an underscore
  in the source ends in a prime here, and the member \<open>id\<close> is written \<open>id'\<close>.
\<close>

datatype NodeType = Local | Remote

record 'addr WorkerNode =
  address :: 'addr
  type :: NodeType
  id' :: string

record 'addr ClusterNodes =
  all_workers :: "'addr WorkerNode list"

record timespec =
  tv_sec :: "64 word"
  tv_nsec :: "64 word"

record 'addr Context =
  getLocalAddress :: 'addr
  getQueryExpirationTimeStamp :: timespec

record SegmentTask =
  segment_id :: size_t
  has_table_scan_or_value :: bool

subsection \<open>Scheduler\<close>

text \<open>
  The data members of \<open>Scheduler\<close> that the operations defined in the header read or
  write. The mutexes, the logger, \<open>segment_bufs\<close> and \<open>batch_segment_headers\<close> are
  touched by no operation whose body is in the header and are left out. The map
  \<open>node_selector_result\<close> is only accessed under \<open>node_selector_result_mutex\<close>, so
  the calls of \<open>selectNodes\<close> are serialised and the model passes the state from one
  call to the next.
\<close>

record ('ctx, 'dag, 'cn, 'ns, 'addr, 'f, 'res) Scheduler =
  query_id :: string
  query_context :: 'ctx
  dag_graph_ptr :: 'dag
  plansegment_topology :: "size_t \<rightharpoonup> size_t set"
  cluster_nodes :: 'cn
  node_selector :: 'ns
  local_address :: 'addr
  time_to_handle_finish_task :: bool
  stopped :: bool
  batch_schedule :: bool
  send_plan_segment_func :: 'f
  node_selector_result :: "size_t \<rightharpoonup> 'res"
  query_expiration_ms :: size_t

text \<open>
  Division of two \<^verbatim>\<open>long\<close> values: C++ truncates towards zero (\<open>sdiv\<close> on
  \<open>int\<close>), on the two's complement reading of the operands.
\<close>

definition long_div :: "64 word \<Rightarrow> 64 word \<Rightarrow> 64 word" where
  "long_div a b = word_of_int (sint a sdiv sint b)"

text \<open>
  The constructor. \<open>NodeSelector_ctor\<close> stands for the constructor of
  \<open>NodeSelector\<close> and \<open>sendPlanSegmentToAddress\<close> for the default value of
  \<open>send_plan_segment_func\<close>; both are declared elsewhere. The members are initialised
  in the order of their declaration, so the node selector is built from the cluster nodes
  as passed in, and the body then appends the local address to \<open>all_workers\<close> and
  computes the deadline. \<open>tv_sec * 1000\<close> and the sum are \<^verbatim>\<open>long\<close> arithmetic
  (the model takes the two's complement result where C++ leaves the overflow undefined),
  and the assignment to the \<open>size_t\<close> member keeps the 64 bits.
\<close>

definition Scheduler_ctor ::
  "(('addr, 'cm) ClusterNodes_scheme \<Rightarrow> ('addr, 'cx) Context_scheme \<Rightarrow> 'dag \<Rightarrow> 'ns) \<Rightarrow> 'f \<Rightarrow>
   string \<Rightarrow> ('addr, 'cx) Context_scheme \<Rightarrow> ('addr, 'cm) ClusterNodes_scheme \<Rightarrow> 'dag \<Rightarrow> bool \<Rightarrow>
   (('addr, 'cx) Context_scheme, 'dag, ('addr, 'cm) ClusterNodes_scheme, 'ns, 'addr, 'f, 'res) Scheduler" where
  "Scheduler_ctor NodeSelector_ctor sendPlanSegmentToAddress
      query_id' query_context' cluster_nodes' dag_graph_ptr' batch_schedule' =
     (let query_expiration_ts = getQueryExpirationTimeStamp query_context' in
      \<lparr> query_id = query_id',
        query_context = query_context',
        dag_graph_ptr = dag_graph_ptr',
        plansegment_topology = Map.empty,
        cluster_nodes = cluster_nodes'
          \<lparr> all_workers := all_workers cluster_nodes' @
              [\<lparr> address = getLocalAddress query_context', WorkerNode.type = Local, id' = [] \<rparr>] \<rparr>,
        node_selector = NodeSelector_ctor cluster_nodes' query_context' dag_graph_ptr',
        local_address = getLocalAddress query_context',
        time_to_handle_finish_task = False,
        stopped = False,
        batch_schedule = batch_schedule',
        send_plan_segment_func = sendPlanSegmentToAddress,
        node_selector_result = Map.empty,
        query_expiration_ms =
          tv_sec query_expiration_ts * 1000 + long_div (tv_nsec query_expiration_ts) 1000000 \<rparr>)"

text \<open>
  \<^verbatim>\<open>std::unordered_map::emplace\<close>: the element is inserted only if the key is
  absent; the call returns the element now stored under the key and whether it was
  inserted.
\<close>

definition emplace :: "('k \<rightharpoonup> 'v) \<Rightarrow> 'k \<Rightarrow> 'v \<Rightarrow> ('v \<times> bool) \<times> ('k \<rightharpoonup> 'v)" where
  "emplace m k v =
     (case m k of
        None \<Rightarrow> ((v, True), m(k \<mapsto> v))
      | Some old \<Rightarrow> ((old, False), m))"

text \<open>
  \<open>selectNodes\<close>. \<open>NodeSelector::select\<close> is defined outside the sources; it
  is the parameter \<open>select\<close>, a function of the selector's state, the plan segment and
  the flag that returns the selection and the selector's new state. The call of
  \<open>select\<close> is an argument of \<open>emplace\<close>, so it is evaluated before the map is looked
  at, on every call.
\<close>

definition selectNodes ::
  "('ns \<Rightarrow> 'ps \<Rightarrow> bool \<Rightarrow> 'res \<times> 'ns) \<Rightarrow>
   ('ctx, 'dag, 'cn, 'ns, 'addr, 'f, 'res) Scheduler \<Rightarrow> 'ps \<Rightarrow> 't SegmentTask_scheme \<Rightarrow>
   'res \<times> ('ctx, 'dag, 'cn, 'ns, 'addr, 'f, 'res) Scheduler" where
  "selectNodes select this plan_segment_ptr task =
     (let (selected, selector') =
            select (node_selector this) plan_segment_ptr (has_table_scan_or_value task);
          (selector_result, result_map') =
            emplace (node_selector_result this) (SegmentTask.segment_id task) selected
      in (fst selector_result,
          this \<lparr> node_selector := selector', node_selector_result := result_map' \<rparr>))"

text \<open>The other operations whose bodies are in the header.\<close>

definition setSendPlanSegmentToAddress ::
  "'f \<Rightarrow> ('ctx, 'dag, 'cn, 'ns, 'addr, 'f, 'res) Scheduler \<Rightarrow> ('ctx, 'dag, 'cn, 'ns, 'addr, 'f, 'res) Scheduler" where
  "setSendPlanSegmentToAddress func this = this \<lparr> send_plan_segment_func := func \<rparr>"

definition onQueryFinished ::
  "('ctx, 'dag, 'cn, 'ns, 'addr, 'f, 'res) Scheduler \<Rightarrow> ('ctx, 'dag, 'cn, 'ns, 'addr, 'f, 'res) Scheduler" where
  "onQueryFinished this = this"

definition sendResources ::
  "('ctx, 'dag, 'cn, 'ns, 'addr, 'f, 'res) Scheduler \<Rightarrow> 'ps \<Rightarrow> ('ctx, 'dag, 'cn, 'ns, 'addr, 'f, 'res) Scheduler" where
  "sendResources this plan_segment_ptr = this"

definition prepareTask ::
  "('ctx, 'dag, 'cn, 'ns, 'addr, 'f, 'res) Scheduler \<Rightarrow> 'ps \<Rightarrow> 'res \<Rightarrow> 't SegmentTask_scheme \<Rightarrow>
   'res \<times> ('ctx, 'dag, 'cn, 'ns, 'addr, 'f, 'res) Scheduler" where
  "prepareTask this plan_segment_ptr selector_info task = (selector_info, this)"

text \<open>
  A call of one of the operations defined in the header, and the state after a sequence
  of such calls. The remaining operations are pure virtual or defined in a source file
  that is not part of the sources.
\<close>

datatype ('ps, 'f, 'res, 't) Scheduler_call =
    SetSendPlanSegmentToAddress 'f
  | OnQueryFinished
  | SendResources 'ps
  | PrepareTask 'ps 'res "'t SegmentTask_scheme"
  | SelectNodes 'ps "'t SegmentTask_scheme"

fun Scheduler_do ::
  "('ns \<Rightarrow> 'ps \<Rightarrow> bool \<Rightarrow> 'res \<times> 'ns) \<Rightarrow> ('ctx, 'dag, 'cn, 'ns, 'addr, 'f, 'res) Scheduler \<Rightarrow>
   ('ps, 'f, 'res, 't) Scheduler_call \<Rightarrow> ('ctx, 'dag, 'cn, 'ns, 'addr, 'f, 'res) Scheduler" where
  "Scheduler_do select this (SetSendPlanSegmentToAddress func) = setSendPlanSegmentToAddress func this"
| "Scheduler_do select this OnQueryFinished = onQueryFinished this"
| "Scheduler_do select this (SendResources p) = sendResources this p"
| "Scheduler_do select this (PrepareTask p info task) = snd (prepareTask this p info task)"
| "Scheduler_do select this (SelectNodes p task) = snd (selectNodes select this p task)"

fun Scheduler_run ::
  "('ns \<Rightarrow> 'ps \<Rightarrow> bool \<Rightarrow> 'res \<times> 'ns) \<Rightarrow> ('ctx, 'dag, 'cn, 'ns, 'addr, 'f, 'res) Scheduler \<Rightarrow>
   ('ps, 'f, 'res, 't) Scheduler_call list \<Rightarrow> ('ctx, 'dag, 'cn, 'ns, 'addr, 'f, 'res) Scheduler" where
  "Scheduler_run select this [] = this"
| "Scheduler_run select this (c # cs) = Scheduler_run select (Scheduler_do select this c) cs"

section \<open>CloudServices/CnchWorkerClient.cpp\<close>

subsection \<open>Exceptions and the RPC channel\<close>

text \<open>
  An exception is its message and its error code; the only code this file names is
  \<open>LOGICAL_ERROR\<close>. A function that can throw returns \<open>Exception + 'a\<close>.
\<close>

datatype ErrorCodes = LOGICAL_ERROR | OtherErrorCode int

datatype Exception = Exception string ErrorCodes

text \<open>
  What the functions set on and read from a \<^verbatim>\<open>brpc::Controller\<close>: the timeout,
  the call id, and the failure state the channel leaves in it.
\<close>

type_synonym CallId = "64 word"

record Controller =
  timeout_ms :: "int option"
  call_id :: CallId
  Failed :: bool
  ErrorText :: string

text \<open>
  The effect of a function on the worker is the list of the RPCs it has issued through
  the stub, each with the controller and the request as sent; a function that issues no
  RPC returns the empty list. The worker's side of a call is the parameter \<open>stub\<close>:
  given the controller and the request it returns the controller and the response after
  the call. \<open>assertController\<close> (of \<open>RpcClientBase\<close>) and
  \<open>RPCHelpers::checkResponse\<close> are defined elsewhere; each is a parameter that
  yields the exception it throws, if any. The controller a function constructs is the
  parameter \<open>cntl\<close>. The \<open>ProfileEventsTimer\<close> at the head of every function
  measures real time and takes no part in the model.

  The three statements that end the synchronous functions:
  \<^verbatim>\<open>stub->f(&cntl, &request, &response, nullptr); assertController(cntl);
  RPCHelpers::checkResponse(response);\<close>
\<close>

definition call_and_check ::
  "(Controller \<Rightarrow> 'req \<Rightarrow> Controller \<times> 'resp) \<Rightarrow> (Controller \<Rightarrow> Exception option) \<Rightarrow>
   ('resp \<Rightarrow> Exception option) \<Rightarrow> Controller \<Rightarrow> 'req \<Rightarrow> Exception + 'resp" where
  "call_and_check stub assertController checkResponse cntl request =
     (let (cntl', response) = stub cntl request in
      case assertController cntl' of
        Some e \<Rightarrow> Inl e
      | None \<Rightarrow>
          (case checkResponse response of
             Some e \<Rightarrow> Inl e
           | None \<Rightarrow> Inr response))"

subsection \<open>Types declared outside this file\<close>

text \<open>
  Each is modelled by the members this file reads. Integer members that are only copied
  are \<open>64 word\<close>; \<open>rpc_port\<close> is the \<open>UInt16\<close> that \<open>executeDedupTask\<close>
  takes. A \<^verbatim>\<open>Poco::Timespan\<close> is read through \<open>totalSeconds\<close> and
  \<open>totalMilliseconds\<close>. Pointer members (\<open>mutation_commands\<close>, \<open>storage\<close>,
  \<open>mv_refresh_param\<close>, the current transaction and worker group) are taken to be
  non-null, and \<open>mutation_commands\<close> is the text its \<open>writeText\<close> writes.
\<close>

type_synonym TxnTimestamp = "64 word"

type_synonym UUID = "128 word"

record StorageID =
  database_name :: string
  table_name :: string
  uuid :: UUID

record Timespan =
  totalSeconds :: int
  totalMilliseconds :: int

record Settings =
  max_execution_time :: Timespan
  send_plan_segment_timeout_ms :: Timespan
  broadcast_manifest_timeout :: Timespan

record WorkerGroup =
  getWorkerIndex :: "string \<Rightarrow> nat"
  workerNum :: nat
  getVWName :: string

record Transaction =
  getPrimaryTransactionID :: TxnTimestamp

text \<open>The query context, with the getters this file calls added to the two above.\<close>

record 'addr ClientContext = "'addr Context" +
  getSettingsRef :: Settings
  getCurrentTransactionID :: TxnTimestamp
  getCurrentTransaction :: Transaction
  getCurrentWorkerGroup :: WorkerGroup

datatype ManipulationType = Mutate | Clustering | OtherManipulationType nat

record AsyncRefreshParam =
  drop_partition_query :: string
  insert_select_query :: string

record 'parts ManipulationTaskParams =
  type :: ManipulationType
  task_id :: string
  rpc_port :: "16 word"
  columns_commit_time :: "64 word"
  is_bucket_table :: bool
  parts_preload_level :: "64 word"
  create_table_query :: string
  source_parts :: 'parts
  mutation_commit_time :: "64 word"
  mutation_commands :: string
  storage :: StorageID
  mv_refresh_param :: AsyncRefreshParam

record MergeTreeMetaBase =
  hasDynamicSubcolumns :: bool
  object_columns :: string

record TopicPartition =
  get_topic :: string
  get_partition :: int
  get_offset :: int

record 'ty KafkaTaskCommand =
  type :: 'ty
  task_id :: string
  rpc_port :: "16 word"
  cnch_storage_id :: StorageID
  local_database_name :: string
  local_table_name :: string
  assigned_consumer :: "64 word"
  create_table_commands :: "string list"
  tpl :: "TopicPartition list"
  sample_partitions :: "TopicPartition list"

record WorkerId =
  id' :: string

subsection \<open>Requests\<close>

text \<open>
  The protobuf requests, by the fields this file sets. A field that is set only under a
  condition is an \<open>option\<close>.
\<close>

record 'pm SubmitManipulationTaskReq =
  txn_id :: TxnTimestamp
  timestamp :: "64 word"
  type :: ManipulationType
  task_id :: string
  rpc_port :: "16 word"
  columns_commit_time :: "64 word"
  is_bucket_table :: bool
  parts_preload_level :: "64 word"
  create_table_query :: "string option"
  source_parts :: 'pm
  mutation_commit_time :: "64 word option"
  mutate_commands :: "string option"
  dynamic_object_column_schema :: "string option"

record SubmitMVRefreshTaskReq =
  txn_id :: TxnTimestamp
  timestamp :: "64 word"
  task_id :: string
  rpc_port :: "16 word"
  mv_storage_id :: StorageID
  create_table_query :: string
  drop_partition_query :: string
  insert_select_query :: string

record TopicPartitionModel =
  topic :: string
  partition :: int
  offset :: int

record 'ty SubmitKafkaConsumeTaskReq =
  type :: 'ty
  task_id :: string
  rpc_port :: "16 word"
  cnch_storage_id :: StorageID
  database :: string
  table :: string
  assigned_consumer :: "64 word"
  create_table_command :: "string list"
  tpl :: "TopicPartitionModel list"
  sample_partitions :: "TopicPartitionModel list"

record SendCreateQueryReq =
  txn_id :: TxnTimestamp
  primary_txn_id :: TxnTimestamp
  timeout :: int
  create_queries :: "string list"
  cnch_table_create_queries :: "string list"

record WorkerInfo =
  worker_id :: string
  index :: nat
  num_workers :: nat

record ('part, 'bitmap) BroadcastManifestReq =
  table_uuid :: UUID
  txn_id :: "64 word"
  worker_info :: WorkerInfo
  parts :: "'part list"
  delete_bitmaps :: "'bitmap list"

record GetDedupWorkerStatusReq =
  table :: StorageID

record GetDedupWorkerStatusResp =
  is_active :: bool
  create_time :: "64 word"
  total_schedule_cnt :: "64 word"
  total_dedup_cnt :: "64 word"
  last_schedule_wait_ms :: "64 word"
  last_task_total_cost_ms :: "64 word"
  last_task_dedup_cost_ms :: "64 word"
  last_task_publish_cost_ms :: "64 word"
  last_task_staged_part_cnt :: "64 word"
  last_task_visible_part_cnt :: "64 word"
  last_task_staged_part_total_rows :: "64 word"
  last_task_visible_part_total_rows :: "64 word"
  dedup_tasks_progress :: "string list"
  last_exception :: string
  last_exception_time :: "64 word"

record DedupWorkerStatus =
  is_active :: bool
  create_time :: "64 word"
  total_schedule_cnt :: "64 word"
  total_dedup_cnt :: "64 word"
  last_schedule_wait_ms :: "64 word"
  last_task_total_cost_ms :: "64 word"
  last_task_dedup_cost_ms :: "64 word"
  last_task_publish_cost_ms :: "64 word"
  last_task_staged_part_cnt :: "64 word"
  last_task_visible_part_cnt :: "64 word"
  last_task_staged_part_total_rows :: "64 word"
  last_task_visible_part_total_rows :: "64 word"
  dedup_tasks_progress :: "string list"
  last_exception :: string
  last_exception_time :: "64 word"

subsection \<open>The functions\<close>

text \<open>
  \<open>submitManipulationTask\<close>. \<open>fillPartsModelForSend\<close> is declared elsewhere and
  is a parameter.
\<close>

definition submitManipulationTask ::
  "(Controller \<Rightarrow> 'pm SubmitManipulationTaskReq \<Rightarrow> Controller \<times> 'resp) \<Rightarrow>
   (Controller \<Rightarrow> Exception option) \<Rightarrow> ('resp \<Rightarrow> Exception option) \<Rightarrow>
   ('st MergeTreeMetaBase_scheme \<Rightarrow> 'parts \<Rightarrow> 'pm) \<Rightarrow> Controller \<Rightarrow>
   'st MergeTreeMetaBase_scheme \<Rightarrow> 'parts ManipulationTaskParams \<Rightarrow> TxnTimestamp \<Rightarrow>
   (Exception + unit) \<times> (Controller \<times> 'pm SubmitManipulationTaskReq) list" where
  "submitManipulationTask stub assertController checkResponse fillPartsModelForSend cntl
      storage' params txn_id' =
     (if ManipulationTaskParams.rpc_port params = 0
      then (Inl (Exception ''Rpc port is not set in ManipulationTaskParams'' LOGICAL_ERROR), [])
      else
        let mutating =
              (ManipulationTaskParams.type params = Mutate \<or>
               ManipulationTaskParams.type params = Clustering);
            request =
              \<lparr> SubmitManipulationTaskReq.txn_id = txn_id',
                SubmitManipulationTaskReq.timestamp = 0,
                SubmitManipulationTaskReq.type = ManipulationTaskParams.type params,
                SubmitManipulationTaskReq.task_id = ManipulationTaskParams.task_id params,
                SubmitManipulationTaskReq.rpc_port = ManipulationTaskParams.rpc_port params,
                SubmitManipulationTaskReq.columns_commit_time =
                  ManipulationTaskParams.columns_commit_time params,
                SubmitManipulationTaskReq.is_bucket_table =
                  ManipulationTaskParams.is_bucket_table params,
                SubmitManipulationTaskReq.parts_preload_level =
                  ManipulationTaskParams.parts_preload_level params,
                SubmitManipulationTaskReq.create_table_query =
                  (if ManipulationTaskParams.create_table_query params \<noteq> []
                   then Some (ManipulationTaskParams.create_table_query params) else None),
                SubmitManipulationTaskReq.source_parts =
                  fillPartsModelForSend storage' (ManipulationTaskParams.source_parts params),
                SubmitManipulationTaskReq.mutation_commit_time =
                  (if mutating then Some (ManipulationTaskParams.mutation_commit_time params)
                   else None),
                mutate_commands =
                  (if mutating then Some (mutation_commands params) else None),
                dynamic_object_column_schema =
                  (if hasDynamicSubcolumns storage' then Some (object_columns storage')
                   else None) \<rparr>
        in (case call_and_check stub assertController checkResponse cntl request of
              Inl e \<Rightarrow> Inl e
            | Inr response \<Rightarrow> Inr (),
            [(cntl, request)]))"

text \<open>\<open>submitMvRefreshTask\<close>; its storage argument is unnamed and unused.\<close>

definition submitMvRefreshTask ::
  "(Controller \<Rightarrow> SubmitMVRefreshTaskReq \<Rightarrow> Controller \<times> 'resp) \<Rightarrow>
   (Controller \<Rightarrow> Exception option) \<Rightarrow> ('resp \<Rightarrow> Exception option) \<Rightarrow> Controller \<Rightarrow>
   'mv \<Rightarrow> 'parts ManipulationTaskParams \<Rightarrow> TxnTimestamp \<Rightarrow>
   (Exception + unit) \<times> (Controller \<times> SubmitMVRefreshTaskReq) list" where
  "submitMvRefreshTask stub assertController checkResponse cntl mv params txn_id' =
     (if ManipulationTaskParams.rpc_port params = 0
      then (Inl (Exception ''Rpc port is not set in ManipulationTaskParams'' LOGICAL_ERROR), [])
      else
        let storage_id = storage params;
            request =
              \<lparr> SubmitMVRefreshTaskReq.txn_id = txn_id',
                SubmitMVRefreshTaskReq.timestamp = 0,
                SubmitMVRefreshTaskReq.task_id = ManipulationTaskParams.task_id params,
                SubmitMVRefreshTaskReq.rpc_port = ManipulationTaskParams.rpc_port params,
                mv_storage_id = storage_id,
                SubmitMVRefreshTaskReq.create_table_query =
                  ManipulationTaskParams.create_table_query params,
                SubmitMVRefreshTaskReq.drop_partition_query =
                  AsyncRefreshParam.drop_partition_query (mv_refresh_param params),
                SubmitMVRefreshTaskReq.insert_select_query =
                  AsyncRefreshParam.insert_select_query (mv_refresh_param params) \<rparr>
        in (case call_and_check stub assertController checkResponse cntl request of
              Inl e \<Rightarrow> Inl e
            | Inr response \<Rightarrow> Inr (),
            [(cntl, request)]))"

text \<open>\<open>submitKafkaConsumeTask\<close> (compiled when \<open>USE_RDKAFKA\<close> is set).\<close>

definition fill_tpl :: "TopicPartition \<Rightarrow> TopicPartitionModel" where
  "fill_tpl tp = \<lparr> topic = get_topic tp, partition = get_partition tp, offset = get_offset tp \<rparr>"

definition submitKafkaConsumeTask ::
  "(Controller \<Rightarrow> 'ty SubmitKafkaConsumeTaskReq \<Rightarrow> Controller \<times> 'resp) \<Rightarrow>
   (Controller \<Rightarrow> Exception option) \<Rightarrow> ('resp \<Rightarrow> Exception option) \<Rightarrow> Controller \<Rightarrow>
   'ty KafkaTaskCommand \<Rightarrow>
   (Exception + unit) \<times> (Controller \<times> 'ty SubmitKafkaConsumeTaskReq) list" where
  "submitKafkaConsumeTask stub assertController checkResponse cntl command =
     (if KafkaTaskCommand.rpc_port command = 0
      then (Inl (Exception ''Rpc port is not set in KafkaTaskCommand'' LOGICAL_ERROR), [])
      else
        let request =
              \<lparr> SubmitKafkaConsumeTaskReq.type = KafkaTaskCommand.type command,
                SubmitKafkaConsumeTaskReq.task_id = KafkaTaskCommand.task_id command,
                SubmitKafkaConsumeTaskReq.rpc_port = KafkaTaskCommand.rpc_port command,
                SubmitKafkaConsumeTaskReq.cnch_storage_id = KafkaTaskCommand.cnch_storage_id command,
                database = local_database_name command,
                SubmitKafkaConsumeTaskReq.table = local_table_name command,
                SubmitKafkaConsumeTaskReq.assigned_consumer =
                  KafkaTaskCommand.assigned_consumer command,
                create_table_command = create_table_commands command,
                SubmitKafkaConsumeTaskReq.tpl = map fill_tpl (KafkaTaskCommand.tpl command),
                SubmitKafkaConsumeTaskReq.sample_partitions =
                  map fill_tpl (KafkaTaskCommand.sample_partitions command) \<rparr>
        in (case call_and_check stub assertController checkResponse cntl request of
              Inl e \<Rightarrow> Inl e
            | Inr response \<Rightarrow> Inr (),
            [(cntl, request)]))"

text \<open>
  \<open>sendCreateQueries\<close>. The \<^verbatim>\<open>std::set\<close> of create queries is the list of
  its elements in the order of iteration.
\<close>

definition sendCreateQueries ::
  "(Controller \<Rightarrow> SendCreateQueryReq \<Rightarrow> Controller \<times> 'resp) \<Rightarrow>
   (Controller \<Rightarrow> Exception option) \<Rightarrow> ('resp \<Rightarrow> Exception option) \<Rightarrow> Controller \<Rightarrow>
   ('addr, 'cx) ClientContext_scheme \<Rightarrow> string list \<Rightarrow> string list \<Rightarrow>
   (Exception + unit) \<times> (Controller \<times> SendCreateQueryReq) list" where
  "sendCreateQueries stub assertController checkResponse cntl context create_queries'
      cnch_table_create_queries' =
     (let settings = getSettingsRef context;
          timeout' = totalSeconds (max_execution_time settings);
          request =
            \<lparr> SendCreateQueryReq.txn_id = getCurrentTransactionID context,
              primary_txn_id = getPrimaryTransactionID (getCurrentTransaction context),
              timeout = (if timeout' \<noteq> 0 then timeout' else 3600),
              create_queries = create_queries',
              cnch_table_create_queries = cnch_table_create_queries' \<rparr>;
          cntl' = cntl \<lparr> timeout_ms :=
                    Some (totalMilliseconds (send_plan_segment_timeout_ms settings)) \<rparr>
      in (case call_and_check stub assertController checkResponse cntl' request of
            Inl e \<Rightarrow> Inl e
          | Inr response \<Rightarrow> Inr (),
          [(cntl', request)]))"

text \<open>\<open>toString\<close> of an unsigned number: its decimal digits.\<close>

fun toString :: "nat \<Rightarrow> string" where
  "toString n =
     (if n < 10 then [''0123456789'' ! n]
      else toString (n div 10) @ [''0123456789'' ! (n mod 10)])"

text \<open>
  \<open>broadcastManifest\<close>. The call is asynchronous: the function returns the call id
  once the RPC is issued, and the completion callback, with the exception handler, runs
  later on a transport thread. The table is given by its storage UUID, the parts vector
  by its parts, and \<open>getModel\<close> of a delete bitmap is a parameter. The index and
  the number of workers are compared as the request holds them; the widths of these
  fields are declared elsewhere, and they are natural numbers here.
\<close>

definition broadcastManifest ::
  "('bm \<Rightarrow> 'bitmap) \<Rightarrow> Controller \<Rightarrow> ('addr, 'cx) ClientContext_scheme \<Rightarrow> TxnTimestamp \<Rightarrow>
   WorkerId \<Rightarrow> UUID \<Rightarrow> 'part list \<Rightarrow> 'bm list \<Rightarrow>
   (Exception + CallId) \<times> (Controller \<times> ('part, 'bitmap) BroadcastManifestReq) list" where
  "broadcastManifest getModel cntl context txn_id' worker_id' table_uuid' parts_vector
      delete_bitmaps' =
     (let cntl' = cntl \<lparr> timeout_ms :=
                    Some (totalMilliseconds (broadcast_manifest_timeout (getSettingsRef context))) \<rparr>;
          call_id' = call_id cntl';
          current_wg = getCurrentWorkerGroup context;
          worker_info' =
            \<lparr> worker_id = WorkerId.id' worker_id',
              index = getWorkerIndex current_wg (WorkerId.id' worker_id'),
              num_workers = workerNum current_wg \<rparr>
      in if num_workers worker_info' \<le> index worker_info'
         then (Inl (Exception
                 (''Invailid worker index '' @ toString (index worker_info') @
                  '' for worker group '' @ getVWName current_wg @
                  '', which contains '' @ toString (workerNum current_wg) @ '' workers.'')
                 LOGICAL_ERROR), [])
         else
           let request =
                 \<lparr> table_uuid = table_uuid',
                   BroadcastManifestReq.txn_id = txn_id',
                   worker_info = worker_info',
                   parts = parts_vector,
                   delete_bitmaps = map getModel delete_bitmaps' \<rparr>
           in (Inr call_id', [(cntl', request)]))"

text \<open>
  \<open>getDedupWorkerStatus\<close>. \<open>status0\<close> is the default-constructed
  \<open>DedupWorkerStatus\<close>, whose declaration is elsewhere.
\<close>

definition getDedupWorkerStatus ::
  "(Controller \<Rightarrow> GetDedupWorkerStatusReq \<Rightarrow> Controller \<times> 'r GetDedupWorkerStatusResp_scheme) \<Rightarrow>
   (Controller \<Rightarrow> Exception option) \<Rightarrow>
   ('r GetDedupWorkerStatusResp_scheme \<Rightarrow> Exception option) \<Rightarrow> Controller \<Rightarrow>
   DedupWorkerStatus \<Rightarrow> StorageID \<Rightarrow>
   (Exception + DedupWorkerStatus) \<times> (Controller \<times> GetDedupWorkerStatusReq) list" where
  "getDedupWorkerStatus stub assertController checkResponse cntl status0 storage_id =
     (let request = \<lparr> GetDedupWorkerStatusReq.table = storage_id \<rparr> in
      (case call_and_check stub assertController checkResponse cntl request of
         Inl e \<Rightarrow> Inl e
       | Inr response \<Rightarrow>
           let status = status0 \<lparr> DedupWorkerStatus.is_active :=
                          GetDedupWorkerStatusResp.is_active response \<rparr>
           in Inr
             (if DedupWorkerStatus.is_active status
              then status
                \<lparr> DedupWorkerStatus.create_time := GetDedupWorkerStatusResp.create_time response,
                  DedupWorkerStatus.total_schedule_cnt :=
                    GetDedupWorkerStatusResp.total_schedule_cnt response,
                  DedupWorkerStatus.total_dedup_cnt :=
                    GetDedupWorkerStatusResp.total_dedup_cnt response,
                  DedupWorkerStatus.last_schedule_wait_ms :=
                    GetDedupWorkerStatusResp.last_schedule_wait_ms response,
                  DedupWorkerStatus.last_task_total_cost_ms :=
                    GetDedupWorkerStatusResp.last_task_total_cost_ms response,
                  DedupWorkerStatus.last_task_dedup_cost_ms :=
                    GetDedupWorkerStatusResp.last_task_dedup_cost_ms response,
                  DedupWorkerStatus.last_task_publish_cost_ms :=
                    GetDedupWorkerStatusResp.last_task_publish_cost_ms response,
                  DedupWorkerStatus.last_task_staged_part_cnt :=
                    GetDedupWorkerStatusResp.last_task_staged_part_cnt response,
                  DedupWorkerStatus.last_task_visible_part_cnt :=
                    GetDedupWorkerStatusResp.last_task_visible_part_cnt response,
                  DedupWorkerStatus.last_task_staged_part_total_rows :=
                    GetDedupWorkerStatusResp.last_task_staged_part_total_rows response,
                  DedupWorkerStatus.last_task_visible_part_total_rows :=
                    GetDedupWorkerStatusResp.last_task_visible_part_total_rows response,
                  DedupWorkerStatus.dedup_tasks_progress :=
                    DedupWorkerStatus.dedup_tasks_progress status @
                    GetDedupWorkerStatusResp.dedup_tasks_progress response,
                  DedupWorkerStatus.last_exception :=
                    GetDedupWorkerStatusResp.last_exception response,
                  DedupWorkerStatus.last_exception_time :=
                    GetDedupWorkerStatusResp.last_exception_time response \<rparr>
              else status),
       [(cntl, request)]))"

section \<open>Sample inputs\<close>

text \<open>
  A concrete selector and scheduler for evaluating the model: the selector's state is
  the list of the calls it has received, and its answer changes with every call.
\<close>

definition logging_select :: "(nat \<times> bool) list \<Rightarrow> nat \<Rightarrow> bool \<Rightarrow> nat list \<times> (nat \<times> bool) list" where
  "logging_select received p flag = ([length received, p], received @ [(p, flag)])"

definition sample_scheduler ::
  "(nat Context, unit, nat ClusterNodes, (nat \<times> bool) list, nat, unit, nat list) Scheduler" where
  "sample_scheduler =
     Scheduler_ctor (\<lambda>nodes context dag. []) () ''q''
       \<lparr> getLocalAddress = 9, getQueryExpirationTimeStamp = \<lparr> tv_sec = 1700000000, tv_nsec = 123456789 \<rparr> \<rparr>
       \<lparr> all_workers = [\<lparr> address = 1, WorkerNode.type = Remote, id' = ''w1'' \<rparr>] \<rparr> () False"

definition resolved_task :: SegmentTask where
  "resolved_task = \<lparr> segment_id = 7, has_table_scan_or_value = True \<rparr>"

definition resolved_scheduler ::
  "(nat Context, unit, nat ClusterNodes, (nat \<times> bool) list, nat, unit, nat list) Scheduler" where
  "resolved_scheduler = snd (selectNodes logging_select sample_scheduler 4 resolved_task)"

text \<open>Inputs for the worker client.\<close>

definition sample_cntl :: Controller where
  "sample_cntl = \<lparr> timeout_ms = None, call_id = 77, Failed = False, ErrorText = [] \<rparr>"

definition sample_storage_id :: StorageID where
  "sample_storage_id = \<lparr> database_name = ''db'', table_name = ''t'', uuid = 5 \<rparr>"

definition sample_params :: "nat list ManipulationTaskParams" where
  "sample_params =
     \<lparr> ManipulationTaskParams.type = Mutate,
       ManipulationTaskParams.task_id = ''task-1'',
       ManipulationTaskParams.rpc_port = 0,
       ManipulationTaskParams.columns_commit_time = 1,
       ManipulationTaskParams.is_bucket_table = False,
       ManipulationTaskParams.parts_preload_level = 0,
       ManipulationTaskParams.create_table_query = ''CREATE TABLE t'',
       ManipulationTaskParams.source_parts = [1, 2],
       ManipulationTaskParams.mutation_commit_time = 2,
       mutation_commands = ''DELETE WHERE 1'',
       storage = sample_storage_id,
       mv_refresh_param = \<lparr> AsyncRefreshParam.drop_partition_query = ''d'', AsyncRefreshParam.insert_select_query = ''i'' \<rparr> \<rparr>"

definition sample_command :: "nat KafkaTaskCommand" where
  "sample_command =
     \<lparr> KafkaTaskCommand.type = 1,
       KafkaTaskCommand.task_id = ''k-1'',
       KafkaTaskCommand.rpc_port = 0,
       KafkaTaskCommand.cnch_storage_id = sample_storage_id,
       local_database_name = ''db'',
       local_table_name = ''t_local'',
       KafkaTaskCommand.assigned_consumer = 0,
       create_table_commands = [''CREATE TABLE t_local''],
       KafkaTaskCommand.tpl = [\<lparr> get_topic = ''topic'', get_partition = 0, get_offset = 42 \<rparr>],
       KafkaTaskCommand.sample_partitions = [] \<rparr>"

definition sample_storage :: MergeTreeMetaBase where
  "sample_storage = \<lparr> hasDynamicSubcolumns = False, object_columns = [] \<rparr>"

definition accepting_stub :: "Controller \<Rightarrow> 'req \<Rightarrow> Controller \<times> unit" where
  "accepting_stub cntl request = (cntl, ())"

definition no_exception :: "'a \<Rightarrow> Exception option" where
  "no_exception x = None"

definition sample_worker_group :: WorkerGroup where
  "sample_worker_group =
     \<lparr> getWorkerIndex = (\<lambda>w. if w = ''w0'' then 0 else if w = ''w1'' then 1 else 2),
       workerNum = 2,
       getVWName = ''vw_default'' \<rparr>"

definition sample_settings :: Settings where
  "sample_settings =
     \<lparr> max_execution_time = \<lparr> totalSeconds = 0, totalMilliseconds = 0 \<rparr>,
       send_plan_segment_timeout_ms = \<lparr> totalSeconds = 10, totalMilliseconds = 10000 \<rparr>,
       broadcast_manifest_timeout = \<lparr> totalSeconds = 30, totalMilliseconds = 30000 \<rparr> \<rparr>"

definition sample_context :: "nat ClientContext" where
  "sample_context =
     \<lparr> getLocalAddress = 9,
       getQueryExpirationTimeStamp = \<lparr> tv_sec = 1700000000, tv_nsec = 123456789 \<rparr>,
       getSettingsRef = sample_settings,
       getCurrentTransactionID = 100,
       getCurrentTransaction = \<lparr> getPrimaryTransactionID = 99 \<rparr>,
       getCurrentWorkerGroup = sample_worker_group \<rparr>"

definition with_max_execution_time :: "int \<Rightarrow> nat ClientContext \<Rightarrow> nat ClientContext" where
  "with_max_execution_time seconds context =
     context \<lparr> getSettingsRef := (getSettingsRef context)
       \<lparr> max_execution_time := \<lparr> totalSeconds = seconds, totalMilliseconds = seconds * 1000 \<rparr> \<rparr> \<rparr>"

definition default_status :: DedupWorkerStatus where
  "default_status =
     \<lparr> DedupWorkerStatus.is_active = False,
       DedupWorkerStatus.create_time = 0,
       DedupWorkerStatus.total_schedule_cnt = 0,
       DedupWorkerStatus.total_dedup_cnt = 0,
       DedupWorkerStatus.last_schedule_wait_ms = 0,
       DedupWorkerStatus.last_task_total_cost_ms = 0,
       DedupWorkerStatus.last_task_dedup_cost_ms = 0,
       DedupWorkerStatus.last_task_publish_cost_ms = 0,
       DedupWorkerStatus.last_task_staged_part_cnt = 0,
       DedupWorkerStatus.last_task_visible_part_cnt = 0,
       DedupWorkerStatus.last_task_staged_part_total_rows = 0,
       DedupWorkerStatus.last_task_visible_part_total_rows = 0,
       DedupWorkerStatus.dedup_tasks_progress = [],
       DedupWorkerStatus.last_exception = [],
       DedupWorkerStatus.last_exception_time = 0 \<rparr>"

definition sample_response :: "bool \<Rightarrow> GetDedupWorkerStatusResp" where
  "sample_response active =
     \<lparr> GetDedupWorkerStatusResp.is_active = active,
       GetDedupWorkerStatusResp.create_time = 11,
       GetDedupWorkerStatusResp.total_schedule_cnt = 12,
       GetDedupWorkerStatusResp.total_dedup_cnt = 13,
       GetDedupWorkerStatusResp.last_schedule_wait_ms = 14,
       GetDedupWorkerStatusResp.last_task_total_cost_ms = 15,
       GetDedupWorkerStatusResp.last_task_dedup_cost_ms = 16,
       GetDedupWorkerStatusResp.last_task_publish_cost_ms = 17,
       GetDedupWorkerStatusResp.last_task_staged_part_cnt = 18,
       GetDedupWorkerStatusResp.last_task_visible_part_cnt = 19,
       GetDedupWorkerStatusResp.last_task_staged_part_total_rows = 20,
       GetDedupWorkerStatusResp.last_task_visible_part_total_rows = 21,
       GetDedupWorkerStatusResp.dedup_tasks_progress = [''p1'', ''p2''],
       GetDedupWorkerStatusResp.last_exception = ''boom'',
       GetDedupWorkerStatusResp.last_exception_time = 22 \<rparr>"

definition status_stub :: "bool \<Rightarrow> Controller \<Rightarrow> GetDedupWorkerStatusReq \<Rightarrow> Controller \<times> GetDedupWorkerStatusResp" where
  "status_stub active cntl request = (cntl, sample_response active)"

section \<open>Properties\<close>

subsection \<open>Auxiliary facts about the scheduler\<close>

lemma emplace_hit: "m k = Some c \<Longrightarrow> emplace m k v = ((c, False), m)"
  by (simp add: emplace_def)

lemma emplace_miss: "m k = None \<Longrightarrow> emplace m k v = ((v, True), m(k \<mapsto> v))"
  by (simp add: emplace_def)

lemma selectNodes_hit:
  "node_selector_result this (SegmentTask.segment_id task) = Some c \<Longrightarrow>
   selectNodes select this p task =
     (c, this \<lparr> node_selector := snd (select (node_selector this) p (has_table_scan_or_value task)) \<rparr>)"
  by (simp add: selectNodes_def emplace_hit split: prod.splits)

lemma selectNodes_miss:
  "node_selector_result this (SegmentTask.segment_id task) = None \<Longrightarrow>
   selectNodes select this p task =
     (fst (select (node_selector this) p (has_table_scan_or_value task)),
      this \<lparr> node_selector := snd (select (node_selector this) p (has_table_scan_or_value task)),
             node_selector_result := (node_selector_result this)
               (SegmentTask.segment_id task \<mapsto> fst (select (node_selector this) p (has_table_scan_or_value task))) \<rparr>)"
  by (simp add: selectNodes_def emplace_miss split: prod.splits)

lemma selectNodes_keeps:
  "node_selector_result this k = Some c \<Longrightarrow>
   node_selector_result (snd (selectNodes select this p task)) k = Some c"
  by (cases "node_selector_result this (SegmentTask.segment_id task)")
     (auto simp add: selectNodes_hit selectNodes_miss)

lemma Scheduler_do_keeps:
  "node_selector_result this k = Some c \<Longrightarrow>
   node_selector_result (Scheduler_do select this call) k = Some c"
  by (cases call)
     (simp_all add: selectNodes_keeps setSendPlanSegmentToAddress_def onQueryFinished_def
        sendResources_def prepareTask_def)

lemma Scheduler_run_keeps:
  "node_selector_result this k = Some c \<Longrightarrow>
   node_selector_result (Scheduler_run select this calls) k = Some c"
  by (induction calls arbitrary: this) (simp_all add: Scheduler_do_keeps)

lemma selectNodes_expiration:
  "query_expiration_ms (snd (selectNodes select this p task)) = query_expiration_ms this"
  by (simp add: selectNodes_def split: prod.splits)

lemma Scheduler_do_expiration:
  "query_expiration_ms (Scheduler_do select this call) = query_expiration_ms this"
  by (cases call)
     (simp_all add: selectNodes_expiration setSendPlanSegmentToAddress_def onQueryFinished_def
        sendResources_def prepareTask_def)

lemma Scheduler_run_expiration:
  "query_expiration_ms (Scheduler_run select this calls) = query_expiration_ms this"
  by (induction calls arbitrary: this) (simp_all add: Scheduler_do_expiration)

lemma long_div_nonneg:
  assumes "0 \<le> sint s" "0 \<le> sint n" "sint s * 1000 + sint n div 1000000 < 2 ^ 63"
  shows "uint (s * 1000 + long_div n 1000000) = sint s * 1000 + sint n div 1000000"
proof -
  define K where "K = sint s * 1000 + sint n div 1000000"
  have n: "sint n sdiv 1000000 = sint n div 1000000"
    using assms(2) by (simp add: signed_divide_int_def sgn_if)
  have eq: "s * 1000 + long_div n 1000000 = (word_of_int K :: 64 word)"
    by (simp add: long_div_def n K_def)
  have lo: "0 \<le> K"
    using assms(1,2) by (simp add: K_def pos_imp_zdiv_nonneg_iff)
  have hi: "K < 2 ^ 64"
    using assms(3) by (simp add: K_def)
  have "uint (word_of_int K :: 64 word) = K mod 2 ^ 64"
    by (simp add: uint_word_of_int)
  also have "\<dots> = K"
    using lo hi by simp
  finally show ?thesis
    by (simp only: eq K_def)
qed

lemma sample_scheduler_members:
  "node_selector_result sample_scheduler = Map.empty"
  "node_selector sample_scheduler = []"
  by (simp_all add: sample_scheduler_def Scheduler_ctor_def Let_def)

lemma sample_first_call:
  "selectNodes logging_select sample_scheduler 4 resolved_task =
     ([0, 4], sample_scheduler \<lparr> node_selector := [(4, True)],
                                 node_selector_result := [7 \<mapsto> [0, 4]] \<rparr>)"
  by (simp add: selectNodes_def emplace_def logging_select_def sample_scheduler_members
        resolved_task_def)

lemma resolved_scheduler_members:
  "node_selector_result resolved_scheduler = [7 \<mapsto> [0, 4]]"
  "node_selector resolved_scheduler = [(4, True)]"
  by (simp_all add: resolved_scheduler_def sample_first_call)

subsection \<open>The claims\<close>

text \<open>
  C1. Node selection is idempotent per segment within one query. When \<open>selectNodes\<close>
  is called for a task whose \<open>segment_id\<close> is not yet in \<open>node_selector_result\<close>
  (the first call for the segment), it returns what \<open>NodeSelector::select\<close> computed
  and stores that result in the map under the segment id. After any further sequence of
  calls of the operations the header defines, the map still holds that result for the
  segment, and every later call of \<open>selectNodes\<close> for a task with the same
  \<open>segment_id\<close> returns exactly that result, whatever plan segment pointer and flag
  it is given and whatever the selector would answer now.
\<close>

theorem selectNodes_idempotent_per_segment:
  assumes "node_selector_result this (SegmentTask.segment_id task) = None"
    and "selectNodes select this p task = (r, this1)"
  shows "r = fst (select (node_selector this) p (has_table_scan_or_value task)) \<and>
         node_selector_result this1 (SegmentTask.segment_id task) = Some r \<and>
         (\<forall>calls p' task'. SegmentTask.segment_id task' = SegmentTask.segment_id task \<longrightarrow>
            node_selector_result (Scheduler_run select this1 calls) (SegmentTask.segment_id task) = Some r \<and>
            fst (selectNodes select (Scheduler_run select this1 calls) p' task') = r)"
proof (intro conjI allI impI)
  from assms show "r = fst (select (node_selector this) p (has_table_scan_or_value task))"
    by (auto simp add: selectNodes_miss)
  from assms show stored: "node_selector_result this1 (SegmentTask.segment_id task) = Some r"
    by (auto simp add: selectNodes_miss)
  fix calls p' task'
  show kept: "node_selector_result (Scheduler_run select this1 calls) (SegmentTask.segment_id task) = Some r"
    by (rule Scheduler_run_keeps [OF stored])
  assume "SegmentTask.segment_id task' = SegmentTask.segment_id task"
  with kept show "fst (selectNodes select (Scheduler_run select this1 calls) p' task') = r"
    by (simp add: selectNodes_hit)
qed

theorem selectNodes_idempotent_per_segment_witness:
  "node_selector_result sample_scheduler 7 = None \<and>
   fst (selectNodes logging_select sample_scheduler 4 resolved_task) = [0, 4] \<and>
   fst (selectNodes logging_select
         (Scheduler_run logging_select resolved_scheduler
            [SelectNodes 5 \<lparr> segment_id = 8, has_table_scan_or_value = False \<rparr>,
             OnQueryFinished,
             SelectNodes 6 \<lparr> segment_id = 7, has_table_scan_or_value = False \<rparr>])
         3 \<lparr> segment_id = 7, has_table_scan_or_value = False \<rparr>) = [0, 4]"
proof -
  have miss: "node_selector_result sample_scheduler (SegmentTask.segment_id resolved_task) = None"
    by (simp add: sample_scheduler_members)
  have first: "selectNodes logging_select sample_scheduler 4 resolved_task =
      (fst (selectNodes logging_select sample_scheduler 4 resolved_task), resolved_scheduler)"
    by (simp add: resolved_scheduler_def)
  have r: "fst (selectNodes logging_select sample_scheduler 4 resolved_task) = [0, 4]"
    by (simp add: sample_first_call)
  have seg: "SegmentTask.segment_id \<lparr> segment_id = 7, has_table_scan_or_value = False \<rparr> =
      SegmentTask.segment_id resolved_task"
    by (simp add: resolved_task_def)
  from selectNodes_idempotent_per_segment [OF miss first] seg
  have "fst (selectNodes logging_select
         (Scheduler_run logging_select resolved_scheduler
            [SelectNodes 5 \<lparr> segment_id = 8, has_table_scan_or_value = False \<rparr>,
             OnQueryFinished,
             SelectNodes 6 \<lparr> segment_id = 7, has_table_scan_or_value = False \<rparr>])
         3 \<lparr> segment_id = 7, has_table_scan_or_value = False \<rparr>) =
       fst (selectNodes logging_select sample_scheduler 4 resolved_task)"
    by blast
  with r show ?thesis
    by (simp add: sample_scheduler_members)
qed

text \<open>
  C2, as stated, fails: a call of \<open>selectNodes\<close> for a segment that is already in
  \<open>node_selector_result\<close> does invoke \<open>NodeSelector::select\<close> again, because the call
  is an argument of \<open>emplace\<close>. With a selector that records the calls it receives, the
  scheduler that has resolved segment 7 returns the stored result \<open>[0, 4]\<close> on a second
  call, and the selector has then received two calls.
\<close>

theorem selectNodes_cached_call_invokes_select:
  "node_selector_result resolved_scheduler 7 = Some [0, 4] \<and>
   node_selector resolved_scheduler = [(4, True)] \<and>
   fst (selectNodes logging_select resolved_scheduler 5
          \<lparr> segment_id = 7, has_table_scan_or_value = False \<rparr>) = [0, 4] \<and>
   fst (logging_select (node_selector resolved_scheduler) 5 False) = [1, 5] \<and>
   node_selector (snd (selectNodes logging_select resolved_scheduler 5
          \<lparr> segment_id = 7, has_table_scan_or_value = False \<rparr>)) = [(4, True), (5, False)]"
proof -
  have stored: "node_selector_result resolved_scheduler 7 = Some [0, 4]"
    by (simp add: resolved_scheduler_members)
  have selector: "node_selector resolved_scheduler = [(4, True)]"
    by (simp add: resolved_scheduler_members)
  have hit: "node_selector_result resolved_scheduler
      (SegmentTask.segment_id \<lparr> segment_id = 7, has_table_scan_or_value = False \<rparr>) = Some [0, 4]"
    using stored by simp
  show ?thesis
    by (simp add: stored selector selectNodes_hit [OF hit] logging_select_def)
qed

text \<open>
  C2, amended. For a segment whose placement is already resolved (its \<open>segment_id\<close>
  is in \<open>node_selector_result\<close>), a further call of \<open>selectNodes\<close> returns the stored
  result and leaves \<open>node_selector_result\<close> and every other member of the scheduler as
  they were, except for the node selector itself: \<open>NodeSelector::select\<close> is invoked
  once more, with the arguments of this call, its result is discarded, and the selector
  is left in the state that invocation produces.
\<close>

theorem selectNodes_cached_call:
  assumes "node_selector_result this (SegmentTask.segment_id task) = Some cached"
  shows "selectNodes select this p task =
           (cached,
            this \<lparr> node_selector :=
                     snd (select (node_selector this) p (has_table_scan_or_value task)) \<rparr>) \<and>
         node_selector_result (snd (selectNodes select this p task)) = node_selector_result this"
  using assms by (simp add: selectNodes_hit)

theorem selectNodes_cached_call_witness:
  "node_selector_result resolved_scheduler 7 = Some [0, 4] \<and>
   selectNodes logging_select resolved_scheduler 5 \<lparr> segment_id = 7, has_table_scan_or_value = False \<rparr> =
     ([0, 4], resolved_scheduler \<lparr> node_selector := [(4, True), (5, False)] \<rparr>)"
proof -
  have stored: "node_selector_result resolved_scheduler 7 = Some [0, 4]"
    by (simp add: resolved_scheduler_members)
  have selector: "node_selector resolved_scheduler = [(4, True)]"
    by (simp add: resolved_scheduler_members)
  have hit: "node_selector_result resolved_scheduler
      (SegmentTask.segment_id \<lparr> segment_id = 7, has_table_scan_or_value = False \<rparr>) = Some [0, 4]"
    using stored by simp
  from selectNodes_cached_call [OF hit, of logging_select 5] stored selector show ?thesis
    by (simp add: logging_select_def)
qed

text \<open>
  C3. If the \<open>rpc_port\<close> of the task parameters is zero, \<open>submitManipulationTask\<close>
  and \<open>submitMvRefreshTask\<close> throw the logical error "Rpc port is not set in
  ManipulationTaskParams" and issue no RPC; if the \<open>rpc_port\<close> of the command is
  zero, \<open>submitKafkaConsumeTask\<close> throws the logical error "Rpc port is not set in
  KafkaTaskCommand" and issues no RPC. This holds whatever the worker would answer. With
  a port that is not zero each of the three functions issues exactly one RPC.
\<close>

theorem rpc_port_unset_raises_before_rpc:
  "(ManipulationTaskParams.rpc_port params = 0 \<longrightarrow>
      submitManipulationTask stub1 assert1 check1 fillPartsModelForSend cntl storage' params txn =
        (Inl (Exception ''Rpc port is not set in ManipulationTaskParams'' LOGICAL_ERROR), []) \<and>
      submitMvRefreshTask stub2 assert2 check2 cntl mv params txn =
        (Inl (Exception ''Rpc port is not set in ManipulationTaskParams'' LOGICAL_ERROR), [])) \<and>
   (KafkaTaskCommand.rpc_port command = 0 \<longrightarrow>
      submitKafkaConsumeTask stub3 assert3 check3 cntl command =
        (Inl (Exception ''Rpc port is not set in KafkaTaskCommand'' LOGICAL_ERROR), [])) \<and>
   (ManipulationTaskParams.rpc_port params \<noteq> 0 \<longrightarrow>
      length (snd (submitManipulationTask stub1 assert1 check1 fillPartsModelForSend cntl storage' params txn)) = 1 \<and>
      length (snd (submitMvRefreshTask stub2 assert2 check2 cntl mv params txn)) = 1) \<and>
   (KafkaTaskCommand.rpc_port command \<noteq> 0 \<longrightarrow>
      length (snd (submitKafkaConsumeTask stub3 assert3 check3 cntl command)) = 1)"
  by (simp add: submitManipulationTask_def submitMvRefreshTask_def submitKafkaConsumeTask_def Let_def)

theorem rpc_port_unset_raises_before_rpc_witness:
  "ManipulationTaskParams.rpc_port sample_params = 0 \<and>
   KafkaTaskCommand.rpc_port sample_command = 0 \<and>
   submitManipulationTask accepting_stub no_exception no_exception (\<lambda>storage parts. parts) sample_cntl
       sample_storage sample_params 100 =
     (Inl (Exception ''Rpc port is not set in ManipulationTaskParams'' LOGICAL_ERROR), []) \<and>
   submitMvRefreshTask accepting_stub no_exception no_exception sample_cntl () sample_params 100 =
     (Inl (Exception ''Rpc port is not set in ManipulationTaskParams'' LOGICAL_ERROR), []) \<and>
   submitKafkaConsumeTask accepting_stub no_exception no_exception sample_cntl sample_command =
     (Inl (Exception ''Rpc port is not set in KafkaTaskCommand'' LOGICAL_ERROR), [])"
proof -
  have p: "ManipulationTaskParams.rpc_port sample_params = 0"
    by (simp add: sample_params_def)
  have k: "KafkaTaskCommand.rpc_port sample_command = 0"
    by (simp add: sample_command_def)
  from rpc_port_unset_raises_before_rpc [of sample_params accepting_stub no_exception no_exception "\<lambda>storage parts. parts"
      sample_cntl sample_storage 100 accepting_stub no_exception no_exception "()" sample_command
      accepting_stub no_exception no_exception] p k
  show ?thesis by simp
qed

text \<open>
  C4. Two \<open>SegmentTaskInstance\<close> values compare equal with \<open>operator==\<close> if and only
  if their \<open>segment_id\<close> and their \<open>parallel_index\<close> are both equal, that is, if and
  only if they are the same pair; equal instances have equal hashes; and the hash of an
  instance is \<open>(segment_id << 13) + parallel_index\<close> in 64-bit arithmetic, which is
  \<open>segment_id * 8192 + parallel_index\<close> modulo \<open>2 ^ 64\<close>.
\<close>

theorem SegmentTaskInstance_eq_hash:
  "(SegmentTaskInstance_eq a b \<longleftrightarrow>
      SegmentTaskInstance.segment_id a = SegmentTaskInstance.segment_id b \<and>
      SegmentTaskInstance.parallel_index a = SegmentTaskInstance.parallel_index b) \<and>
   (SegmentTaskInstance_eq a b \<longleftrightarrow> a = b) \<and>
   (SegmentTaskInstance_eq a b \<longrightarrow> Hash a = Hash b) \<and>
   Hash a = push_bit 13 (SegmentTaskInstance.segment_id a) + SegmentTaskInstance.parallel_index a \<and>
   unat (Hash a) =
     (unat (SegmentTaskInstance.segment_id a) * 8192 + unat (SegmentTaskInstance.parallel_index a)) mod 2 ^ 64"
proof -
  have eq: "SegmentTaskInstance_eq a b \<longleftrightarrow> a = b"
    by (cases a, cases b) (simp add: SegmentTaskInstance_eq_def)
  have "unat (Hash a) =
     (unat (SegmentTaskInstance.segment_id a) * 8192 + unat (SegmentTaskInstance.parallel_index a)) mod 2 ^ 64"
    by (simp add: Hash_def push_bit_eq_mult unat_word_ariths mod_simps)
  with eq show ?thesis
    by (auto simp add: SegmentTaskInstance_eq_def Hash_def)
qed

theorem SegmentTaskInstance_eq_hash_witness:
  "SegmentTaskInstance_eq \<lparr>SegmentTaskInstance.segment_id = 3, parallel_index = 5\<rparr> \<lparr>SegmentTaskInstance.segment_id = 3, parallel_index = 5\<rparr> \<and>
   Hash \<lparr>SegmentTaskInstance.segment_id = 3, parallel_index = 5\<rparr> = Hash \<lparr>SegmentTaskInstance.segment_id = 3, parallel_index = 5\<rparr> \<and>
   Hash \<lparr>SegmentTaskInstance.segment_id = 3, parallel_index = 5\<rparr> = 24581"
  using SegmentTaskInstance_eq_hash
    [of "\<lparr>SegmentTaskInstance.segment_id = 3, parallel_index = 5\<rparr>" "\<lparr>SegmentTaskInstance.segment_id = 3, parallel_index = 5\<rparr>"]
  by (simp add: SegmentTaskInstance_eq_def)

text \<open>
  C5. The query expiration deadline is computed once, by the constructor, from the
  expiration timestamp of the query context: \<open>query_expiration_ms\<close> is
  \<open>tv_sec * 1000 + tv_nsec / 1000000\<close> in the machine's 64-bit integer arithmetic
  (the division truncating), which for a timestamp with non-negative fields whose
  millisecond value fits a \<^verbatim>\<open>long\<close> is exactly the integer
  \<open>tv_sec * 1000 + tv_nsec div 1000000\<close>; and no sequence of calls of the operations
  defined in the header changes it afterwards.
\<close>

theorem query_expiration_ms_computed_once:
  "(let ts = getQueryExpirationTimeStamp ctx;
        this = (Scheduler_ctor NodeSelector_ctor send q ctx nodes dag batch
                  :: (_, _, _, _, _, _, 'res) Scheduler)
    in query_expiration_ms this = tv_sec ts * 1000 + long_div (tv_nsec ts) 1000000 \<and>
       (0 \<le> sint (tv_sec ts) \<and> 0 \<le> sint (tv_nsec ts) \<and>
        sint (tv_sec ts) * 1000 + sint (tv_nsec ts) div 1000000 < 2 ^ 63 \<longrightarrow>
        uint (query_expiration_ms this) = sint (tv_sec ts) * 1000 + sint (tv_nsec ts) div 1000000) \<and>
       (\<forall>select calls.
          query_expiration_ms (Scheduler_run select this calls) = query_expiration_ms this))"
proof -
  define ts where "ts = getQueryExpirationTimeStamp ctx"
  have value_eq: "query_expiration_ms (Scheduler_ctor NodeSelector_ctor send q ctx nodes dag batch) =
      tv_sec ts * 1000 + long_div (tv_nsec ts) 1000000"
    by (simp add: Scheduler_ctor_def Let_def ts_def)
  have exact: "uint (tv_sec ts * 1000 + long_div (tv_nsec ts) 1000000) =
      sint (tv_sec ts) * 1000 + sint (tv_nsec ts) div 1000000"
    if "0 \<le> sint (tv_sec ts)" "0 \<le> sint (tv_nsec ts)"
      "sint (tv_sec ts) * 1000 + sint (tv_nsec ts) div 1000000 < 2 ^ 63"
    using that by (rule long_div_nonneg)
  show ?thesis
    unfolding Let_def ts_def [symmetric]
    by (simp only: value_eq Scheduler_run_expiration) (simp add: exact)
qed

theorem query_expiration_ms_computed_once_witness:
  "(0::int) \<le> sint (1700000000 :: 64 word) \<and> (0::int) \<le> sint (123456789 :: 64 word) \<and>
   uint (query_expiration_ms sample_scheduler) = 1700000000123 \<and>
   query_expiration_ms
     (Scheduler_run logging_select sample_scheduler
        [SelectNodes 4 resolved_task, SetSendPlanSegmentToAddress (), SendResources 4]) =
     1700000000123"
proof -
  have s: "sint (1700000000 :: 64 word) = 1700000000"
    by simp
  have n: "sint (123456789 :: 64 word) = 123456789"
    by simp
  note inst = query_expiration_ms_computed_once
    [where 'res = "nat list", of "\<lparr> getLocalAddress = 9 :: nat,
           getQueryExpirationTimeStamp = \<lparr> tv_sec = 1700000000, tv_nsec = 123456789 \<rparr> \<rparr>"
        "\<lambda>nodes context dag. [] :: (nat \<times> bool) list" "() :: unit" "''q''"
        "\<lparr> all_workers = [\<lparr> address = 1, WorkerNode.type = Remote, id' = ''w1'' \<rparr>] \<rparr>" "() :: unit" False,
     unfolded Let_def, folded sample_scheduler_def]
  from inst [THEN conjunct2, THEN conjunct1]
  have "uint (query_expiration_ms sample_scheduler) = 1700000000123"
    by simp
  moreover from inst [THEN conjunct2, THEN conjunct2] have "query_expiration_ms
     (Scheduler_run logging_select sample_scheduler
        [SelectNodes 4 resolved_task, SetSendPlanSegmentToAddress (), SendResources 4]) =
     query_expiration_ms sample_scheduler"
    by blast
  ultimately show ?thesis
    by (simp add: s n word_uint_eq_iff)
qed

text \<open>
  C7. The constructor appends the local address of the query context to the cluster
  membership as one more worker node, of type \<open>Local\<close> and with an empty id: after
  construction \<open>cluster_nodes.all_workers\<close> is the list of the worker nodes supplied,
  in their order, followed by exactly one entry for the local address, which is also
  the scheduler's \<open>local_address\<close>; the other members of the cluster nodes are the
  ones supplied.
\<close>

theorem Scheduler_ctor_appends_local_worker:
  "(let this = Scheduler_ctor NodeSelector_ctor send q ctx nodes dag batch
    in all_workers (cluster_nodes this) =
         all_workers nodes @ [\<lparr> address = getLocalAddress ctx, WorkerNode.type = Local, id' = [] \<rparr>] \<and>
       length (all_workers (cluster_nodes this)) = Suc (length (all_workers nodes)) \<and>
       local_address this = getLocalAddress ctx \<and>
       ClusterNodes.more (cluster_nodes this) = ClusterNodes.more nodes)"
  by (simp add: Scheduler_ctor_def Let_def)

text \<open>
  C8. \<open>broadcastManifest\<close> throws a logical error and issues no RPC whenever the
  index of the worker in the current worker group is greater than or equal to the
  number of workers of the group; when the index is smaller, it issues the broadcast RPC,
  once, with the worker's id, index and the number of workers in the request, and
  returns the call id. So the RPC is issued if and only if the index is smaller than
  the number of workers.
\<close>

theorem broadcastManifest_checks_worker_index:
  "(let wg = getCurrentWorkerGroup context;
        i = getWorkerIndex wg (WorkerId.id' worker);
        result = broadcastManifest getModel cntl context txn worker uuid' parts' bitmaps
    in (workerNum wg \<le> i \<longrightarrow>
          result =
            (Inl (Exception
               (''Invailid worker index '' @ toString i @ '' for worker group '' @ getVWName wg @
                '', which contains '' @ toString (workerNum wg) @ '' workers.'')
               LOGICAL_ERROR), [])) \<and>
       (i < workerNum wg \<longrightarrow>
          fst result = Inr (call_id cntl) \<and>
          snd result =
            [(cntl \<lparr> timeout_ms :=
                 Some (totalMilliseconds (broadcast_manifest_timeout (getSettingsRef context))) \<rparr>,
              \<lparr> table_uuid = uuid', BroadcastManifestReq.txn_id = txn,
                worker_info = \<lparr> worker_id = WorkerId.id' worker, index = i, num_workers = workerNum wg \<rparr>,
                parts = parts', delete_bitmaps = map getModel bitmaps \<rparr>)]) \<and>
       (snd result \<noteq> [] \<longleftrightarrow> i < workerNum wg))"
  by (auto simp add: broadcastManifest_def Let_def)

theorem broadcastManifest_checks_worker_index_witness:
  "workerNum (getCurrentWorkerGroup sample_context) \<le>
     getWorkerIndex (getCurrentWorkerGroup sample_context) ''w7'' \<and>
   broadcastManifest (\<lambda>b. b) sample_cntl sample_context 100 \<lparr> id' = ''w7'' \<rparr> 5 [1::nat] [2::nat] =
     (Inl (Exception ''Invailid worker index 2 for worker group vw_default, which contains 2 workers.''
        LOGICAL_ERROR), []) \<and>
   getWorkerIndex (getCurrentWorkerGroup sample_context) ''w1'' <
     workerNum (getCurrentWorkerGroup sample_context) \<and>
   fst (broadcastManifest (\<lambda>b. b) sample_cntl sample_context 100 \<lparr> id' = ''w1'' \<rparr> 5 [1::nat] [2::nat]) =
     Inr 77 \<and>
   length (snd (broadcastManifest (\<lambda>b. b) sample_cntl sample_context 100 \<lparr> id' = ''w1'' \<rparr> 5 [1::nat] [2::nat])) = 1"
proof -
  have wg: "getCurrentWorkerGroup sample_context = sample_worker_group"
    by (simp add: sample_context_def)
  have bad: "workerNum sample_worker_group \<le> getWorkerIndex sample_worker_group ''w7''"
    by (simp add: sample_worker_group_def)
  have good: "getWorkerIndex sample_worker_group ''w1'' < workerNum sample_worker_group"
    by (simp add: sample_worker_group_def)
  have vals: "getWorkerIndex sample_worker_group ''w7'' = 2" "workerNum sample_worker_group = 2"
    "getVWName sample_worker_group = ''vw_default''" "call_id sample_cntl = 77"
    by (simp_all add: sample_worker_group_def sample_cntl_def)
  have two: "toString 2 = ''2''"
    by simp
  from broadcastManifest_checks_worker_index [of sample_context "\<lparr> id' = ''w7'' \<rparr>" "\<lambda>b. b" sample_cntl 100 5 "[1::nat]" "[2::nat]"] bad
  have a: "broadcastManifest (\<lambda>b. b) sample_cntl sample_context 100 \<lparr> id' = ''w7'' \<rparr> 5 [1::nat] [2::nat] =
     (Inl (Exception ''Invailid worker index 2 for worker group vw_default, which contains 2 workers.''
        LOGICAL_ERROR), [])"
    by (simp add: Let_def wg vals two)
  from broadcastManifest_checks_worker_index [of sample_context "\<lparr> id' = ''w1'' \<rparr>" "\<lambda>b. b" sample_cntl 100 5 "[1::nat]" "[2::nat]"] good
  have b: "fst (broadcastManifest (\<lambda>b. b) sample_cntl sample_context 100 \<lparr> id' = ''w1'' \<rparr> 5 [1::nat] [2::nat]) =
     Inr 77 \<and>
   length (snd (broadcastManifest (\<lambda>b. b) sample_cntl sample_context 100 \<lparr> id' = ''w1'' \<rparr> 5 [1::nat] [2::nat])) = 1"
    by (simp add: Let_def wg vals)
  from a b bad good show ?thesis
    by (simp add: wg)
qed

text \<open>
  C9. \<open>sendCreateQueries\<close> issues one RPC whose request has, as its timeout, the
  whole seconds of \<open>max_execution_time\<close> when that number is not zero, and 3600
  when it is zero.
\<close>

theorem sendCreateQueries_timeout:
  "(let t = totalSeconds (max_execution_time (getSettingsRef context));
        sent = snd (sendCreateQueries stub assertController checkResponse cntl context queries
                      cnch_queries)
    in (t \<noteq> 0 \<longrightarrow> map (timeout \<circ> snd) sent = [t]) \<and>
       (t = 0 \<longrightarrow> map (timeout \<circ> snd) sent = [3600]))"
  by (simp add: sendCreateQueries_def Let_def)

theorem sendCreateQueries_timeout_witness:
  "totalSeconds (max_execution_time (getSettingsRef sample_context)) = 0 \<and>
   map (timeout \<circ> snd)
     (snd (sendCreateQueries accepting_stub no_exception no_exception sample_cntl sample_context
        [''CREATE TABLE a''] [''CREATE TABLE b''])) = [3600] \<and>
   totalSeconds (max_execution_time (getSettingsRef (with_max_execution_time 25 sample_context))) = 25 \<and>
   map (timeout \<circ> snd)
     (snd (sendCreateQueries accepting_stub no_exception no_exception sample_cntl
        (with_max_execution_time 25 sample_context) [''CREATE TABLE a''] [''CREATE TABLE b''])) = [25]"
proof -
  have z: "totalSeconds (max_execution_time (getSettingsRef sample_context)) = 0"
    by (simp add: sample_context_def sample_settings_def)
  have n: "totalSeconds (max_execution_time (getSettingsRef (with_max_execution_time 25 sample_context))) = 25"
    by (simp add: with_max_execution_time_def)
  from sendCreateQueries_timeout [of sample_context accepting_stub no_exception no_exception sample_cntl
      "[''CREATE TABLE a'']" "[''CREATE TABLE b'']"] z
  have a: "map (timeout \<circ> snd)
     (snd (sendCreateQueries accepting_stub no_exception no_exception sample_cntl sample_context
        [''CREATE TABLE a''] [''CREATE TABLE b''])) = [3600]"
    by (simp add: Let_def)
  from sendCreateQueries_timeout [of "with_max_execution_time 25 sample_context" accepting_stub no_exception no_exception
      sample_cntl "[''CREATE TABLE a'']" "[''CREATE TABLE b'']"] n
  have b: "map (timeout \<circ> snd)
     (snd (sendCreateQueries accepting_stub no_exception no_exception sample_cntl
        (with_max_execution_time 25 sample_context) [''CREATE TABLE a''] [''CREATE TABLE b''])) = [25]"
    by (simp add: Let_def)
  from z n a b show ?thesis by simp
qed

text \<open>
  C10. When the RPC succeeds and the response reports \<open>is_active = false\<close>,
  \<open>getDedupWorkerStatus\<close> returns the default-constructed status with
  \<open>is_active\<close> set to false: every other member keeps its default value. The
  other fields of the response are copied only when \<open>is_active\<close> is true, and then
  all of them are (the progress entries are appended to the default's list).
\<close>

theorem getDedupWorkerStatus_inactive_keeps_defaults:
  assumes "stub cntl \<lparr> GetDedupWorkerStatusReq.table = storage_id \<rparr> = (cntl', response)"
    and "assertController cntl' = None"
    and "checkResponse response = None"
  shows
    "(\<not> GetDedupWorkerStatusResp.is_active response \<longrightarrow>
        fst (getDedupWorkerStatus stub assertController checkResponse cntl status0 storage_id) =
          Inr (status0 \<lparr> DedupWorkerStatus.is_active := False \<rparr>)) \<and>
     (GetDedupWorkerStatusResp.is_active response \<longrightarrow>
        fst (getDedupWorkerStatus stub assertController checkResponse cntl status0 storage_id) =
          Inr \<lparr> DedupWorkerStatus.is_active = True,
                DedupWorkerStatus.create_time = GetDedupWorkerStatusResp.create_time response,
                DedupWorkerStatus.total_schedule_cnt =
                  GetDedupWorkerStatusResp.total_schedule_cnt response,
                DedupWorkerStatus.total_dedup_cnt =
                  GetDedupWorkerStatusResp.total_dedup_cnt response,
                DedupWorkerStatus.last_schedule_wait_ms =
                  GetDedupWorkerStatusResp.last_schedule_wait_ms response,
                DedupWorkerStatus.last_task_total_cost_ms =
                  GetDedupWorkerStatusResp.last_task_total_cost_ms response,
                DedupWorkerStatus.last_task_dedup_cost_ms =
                  GetDedupWorkerStatusResp.last_task_dedup_cost_ms response,
                DedupWorkerStatus.last_task_publish_cost_ms =
                  GetDedupWorkerStatusResp.last_task_publish_cost_ms response,
                DedupWorkerStatus.last_task_staged_part_cnt =
                  GetDedupWorkerStatusResp.last_task_staged_part_cnt response,
                DedupWorkerStatus.last_task_visible_part_cnt =
                  GetDedupWorkerStatusResp.last_task_visible_part_cnt response,
                DedupWorkerStatus.last_task_staged_part_total_rows =
                  GetDedupWorkerStatusResp.last_task_staged_part_total_rows response,
                DedupWorkerStatus.last_task_visible_part_total_rows =
                  GetDedupWorkerStatusResp.last_task_visible_part_total_rows response,
                DedupWorkerStatus.dedup_tasks_progress =
                  DedupWorkerStatus.dedup_tasks_progress status0 @
                  GetDedupWorkerStatusResp.dedup_tasks_progress response,
                DedupWorkerStatus.last_exception =
                  GetDedupWorkerStatusResp.last_exception response,
                DedupWorkerStatus.last_exception_time =
                  GetDedupWorkerStatusResp.last_exception_time response \<rparr>)"
proof -
  have call: "call_and_check stub assertController checkResponse cntl
      \<lparr> GetDedupWorkerStatusReq.table = storage_id \<rparr> = Inr response"
    using assms by (simp add: call_and_check_def)
  show ?thesis
    by (cases status0) (simp add: getDedupWorkerStatus_def call Let_def)
qed

theorem getDedupWorkerStatus_inactive_keeps_defaults_witness:
  "status_stub False sample_cntl \<lparr> GetDedupWorkerStatusReq.table = sample_storage_id \<rparr> =
     (sample_cntl, sample_response False) \<and>
   no_exception sample_cntl = None \<and>
   no_exception (sample_response False) = None \<and>
   \<not> GetDedupWorkerStatusResp.is_active (sample_response False) \<and>
   GetDedupWorkerStatusResp.last_exception (sample_response False) = ''boom'' \<and>
   fst (getDedupWorkerStatus (status_stub False) no_exception no_exception sample_cntl
          default_status sample_storage_id) = Inr default_status \<and>
   GetDedupWorkerStatusResp.is_active (sample_response True) \<and>
   fst (getDedupWorkerStatus (status_stub True) no_exception no_exception sample_cntl
          default_status sample_storage_id) =
     Inr \<lparr> DedupWorkerStatus.is_active = True,
           DedupWorkerStatus.create_time = 11,
           DedupWorkerStatus.total_schedule_cnt = 12,
           DedupWorkerStatus.total_dedup_cnt = 13,
           DedupWorkerStatus.last_schedule_wait_ms = 14,
           DedupWorkerStatus.last_task_total_cost_ms = 15,
           DedupWorkerStatus.last_task_dedup_cost_ms = 16,
           DedupWorkerStatus.last_task_publish_cost_ms = 17,
           DedupWorkerStatus.last_task_staged_part_cnt = 18,
           DedupWorkerStatus.last_task_visible_part_cnt = 19,
           DedupWorkerStatus.last_task_staged_part_total_rows = 20,
           DedupWorkerStatus.last_task_visible_part_total_rows = 21,
           DedupWorkerStatus.dedup_tasks_progress = [''p1'', ''p2''],
           DedupWorkerStatus.last_exception = ''boom'',
           DedupWorkerStatus.last_exception_time = 22 \<rparr>"
proof -
  have s: "status_stub active sample_cntl \<lparr> GetDedupWorkerStatusReq.table = sample_storage_id \<rparr> =
     (sample_cntl, sample_response active)" for active
    by (simp add: status_stub_def)
  have a: "no_exception sample_cntl = None"
    and r: "no_exception (sample_response active) = None" for active
    by (simp_all add: no_exception_def)
  have i: "\<not> GetDedupWorkerStatusResp.is_active (sample_response False)"
    and e: "GetDedupWorkerStatusResp.last_exception (sample_response False) = ''boom''"
    and t: "GetDedupWorkerStatusResp.is_active (sample_response True)"
    by (simp_all add: sample_response_def)
  have d: "default_status \<lparr> DedupWorkerStatus.is_active := False \<rparr> = default_status"
    by (simp add: default_status_def)
  from getDedupWorkerStatus_inactive_keeps_defaults
    [where stub = "status_stub False" and cntl = sample_cntl and cntl' = sample_cntl
      and storage_id = sample_storage_id and response = "sample_response False"
      and assertController = no_exception and checkResponse = no_exception
      and ?status0.0 = default_status, OF s a r] i
  have inactive: "fst (getDedupWorkerStatus (status_stub False) no_exception no_exception sample_cntl
          default_status sample_storage_id) = Inr default_status"
    by (simp add: d)
  from getDedupWorkerStatus_inactive_keeps_defaults
    [where stub = "status_stub True" and cntl = sample_cntl and cntl' = sample_cntl
      and storage_id = sample_storage_id and response = "sample_response True"
      and assertController = no_exception and checkResponse = no_exception
      and ?status0.0 = default_status, OF s a r] t
  have active: "fst (getDedupWorkerStatus (status_stub True) no_exception no_exception sample_cntl
          default_status sample_storage_id) =
     Inr \<lparr> DedupWorkerStatus.is_active = True,
           DedupWorkerStatus.create_time = 11,
           DedupWorkerStatus.total_schedule_cnt = 12,
           DedupWorkerStatus.total_dedup_cnt = 13,
           DedupWorkerStatus.last_schedule_wait_ms = 14,
           DedupWorkerStatus.last_task_total_cost_ms = 15,
           DedupWorkerStatus.last_task_dedup_cost_ms = 16,
           DedupWorkerStatus.last_task_publish_cost_ms = 17,
           DedupWorkerStatus.last_task_staged_part_cnt = 18,
           DedupWorkerStatus.last_task_visible_part_cnt = 19,
           DedupWorkerStatus.last_task_staged_part_total_rows = 20,
           DedupWorkerStatus.last_task_visible_part_total_rows = 21,
           DedupWorkerStatus.dedup_tasks_progress = [''p1'', ''p2''],
           DedupWorkerStatus.last_exception = ''boom'',
           DedupWorkerStatus.last_exception_time = 22 \<rparr>"
    by (simp add: sample_response_def default_status_def)
  from s [of False] a r [of False] i e t inactive active show ?thesis
    by simp
qed

end
